theory Spec2Isabelle
  imports Complex_Main "HOL-Library.Sublist"
begin

section \<open>Python strings\<close>

text \<open>
  A Python \<open>str\<close> is a sequence of code points. The model uses \<open>string\<close> and reads a
  \<open>char\<close> as the code point of the same number, so it covers the texts whose code points
  lie below 256 (ASCII and Latin-1). On these, \<open>lower\<close> and \<open>strip\<close> below are what
  \<open>str.lower()\<close> and \<open>str.strip()\<close> compute. The operator \<open>needle in hay\<close> on strings
  is \<open>sublist needle hay\<close>.
\<close>

definition lower_char :: "char \<Rightarrow> char" where
  "lower_char c =
     (let n = (of_char c :: nat)
      in if (65 \<le> n \<and> n \<le> 90) \<or> (192 \<le> n \<and> n \<le> 214) \<or> (216 \<le> n \<and> n \<le> 222)
         then char_of (n + 32) else c)"

definition lower :: "string \<Rightarrow> string" where
  "lower s = map lower_char s"

definition isspace :: "char \<Rightarrow> bool" where
  "isspace c =
     (let n = (of_char c :: nat)
      in (9 \<le> n \<and> n \<le> 13) \<or> (28 \<le> n \<and> n \<le> 32) \<or> n = 133 \<or> n = 160)"

definition strip :: "string \<Rightarrow> string" where
  "strip s = rev (dropWhile isspace (rev (dropWhile isspace s)))"

fun join :: "string \<Rightarrow> string list \<Rightarrow> string" where
  "join sep [] = []"
| "join sep [x] = x"
| "join sep (x # y # ys) = x @ sep @ join sep (y # ys)"

text \<open>
  \<open>str.title()\<close>: a letter that follows a cased character is lower-cased, any other letter
  is upper-cased. The program applies it to the material names only, which are ASCII, and
  the model's upper-casing is the ASCII one.
\<close>

definition upper_char :: "char \<Rightarrow> char" where
  "upper_char c =
     (let n = (of_char c :: nat)
      in if 97 \<le> n \<and> n \<le> 122 then char_of (n - 32) else c)"

definition iscased :: "char \<Rightarrow> bool" where
  "iscased c =
     (let n = (of_char c :: nat)
      in (65 \<le> n \<and> n \<le> 90) \<or> (97 \<le> n \<and> n \<le> 122))"

fun title_from :: "bool \<Rightarrow> string \<Rightarrow> string" where
  "title_from previous_is_cased [] = []"
| "title_from previous_is_cased (c # cs) =
     (if previous_is_cased then lower_char c else upper_char c) # title_from (iscased c) cs"

definition title :: "string \<Rightarrow> string" where
  "title s = title_from False s"

text \<open>\<open>str(n)\<close> for an integer: its decimal digits, with a minus sign when negative.\<close>

fun str_nat :: "nat \<Rightarrow> string" where
  "str_nat n =
     (if n < 10 then [char_of (48 + n)]
      else str_nat (n div 10) @ [char_of (48 + n mod 10)])"

definition str_int :: "int \<Rightarrow> string" where
  "str_int i = (if i < 0 then CHR ''-'' # str_nat (nat (- i)) else str_nat (nat i))"


section \<open>scoring.py\<close>

text \<open>
  The product payload is the dictionary that Open Food Facts returns. The model is a
  record of the keys the program reads; a key that is absent or \<open>null\<close> is \<open>None\<close>. The
  tag fields are lists of strings, the text fields strings, and \<open>nova_group\<close> an integer
  or a string. The same keys occur in several dictionaries of the program, so the fields
  of each record carry a prefix (\<open>p_\<close> for the product payload).
\<close>

datatype nova_value = NovaInt int | NovaStr string

record product_data =
  p_categories_tags :: "string list option"
  p_labels_tags :: "string list option"
  p_packaging_tags :: "string list option"
  p_product_name :: "string option"
  p_ingredients_text :: "string option"
  p_nova_group :: "nova_value option"
  p_product_name_en :: "string option"
  p_image_url :: "string option"
  p_packaging :: "string option"

definition IMPACT_TO_CO2 :: "string \<rightharpoonup> real" where
  "IMPACT_TO_CO2 = [''Red'' \<mapsto> 5.0, ''Yellow'' \<mapsto> 2.5, ''Green'' \<mapsto> 0.8]"

definition IMPACT_TO_LABEL :: "string \<rightharpoonup> string" where
  "IMPACT_TO_LABEL =
     [''Red'' \<mapsto> ''High Impact'', ''Yellow'' \<mapsto> ''Medium Impact'', ''Green'' \<mapsto> ''Low Impact'']"

definition normalize_text :: "string list \<Rightarrow> string" where
  "normalize_text values = lower (join '' '' values)"

text \<open>\<open>x or []\<close> and \<open>x or ""\<close>: an absent value and an empty one both give the empty one.\<close>

definition or_list :: "'a list option \<Rightarrow> 'a list" where
  "or_list v = (case v of None \<Rightarrow> [] | Some xs \<Rightarrow> xs)"

text \<open>The local variables of \<open>score_product\<close>, as functions of the payload.\<close>

definition category_blob :: "product_data \<Rightarrow> string" where
  "category_blob product = normalize_text (or_list (p_categories_tags product))"

definition label_blob :: "product_data \<Rightarrow> string" where
  "label_blob product = normalize_text (or_list (p_labels_tags product))"

definition packaging_blob :: "product_data \<Rightarrow> string" where
  "packaging_blob product = normalize_text (or_list (p_packaging_tags product))"

definition nova_group_text :: "product_data \<Rightarrow> string" where
  "nova_group_text product =
     strip (case p_nova_group product of
              None \<Rightarrow> []
            | Some (NovaInt n) \<Rightarrow> (if n = 0 then [] else str_int n)
            | Some (NovaStr s) \<Rightarrow> s)"

definition combined :: "product_data \<Rightarrow> string" where
  "combined product =
     join '' '' [category_blob product, label_blob product, packaging_blob product,
                 lower (or_list (p_product_name product)),
                 lower (or_list (p_ingredients_text product))]"

definition score_product :: "product_data \<Rightarrow> string \<times> string" where
  "score_product product =
     (if sublist ''beef'' (combined product) \<or> sublist ''meat'' (combined product)
      then (''Red'', ''Category indicates meat-heavy product (higher footprint).'')
      else if nova_group_text product = ''4'' \<or> sublist ''packaged-foods'' (category_blob product)
      then (''Yellow'', ''Likely ultra-processed packaged food.'')
      else if list_ex (\<lambda>term. sublist term (combined product))
                [''plant'', ''vegan'', ''vegetarian'', ''plant-based'']
      then (''Green'', ''Plant-based indicators found.'')
      else if list_ex (\<lambda>term. sublist term (packaging_blob product))
                [''bulk'', ''recyclable'', ''paper'']
      then (''Green'', ''Lower-impact packaging indicators found.'')
      else (''Yellow'', ''Insufficient certainty; assigned medium impact.''))"

definition estimate_co2 :: "string \<Rightarrow> real" where
  "estimate_co2 impact_score =
     (case IMPACT_TO_CO2 impact_score of Some v \<Rightarrow> v | None \<Rightarrow> 2.5)"

definition suggest_alternative :: "string \<Rightarrow> string \<Rightarrow> string" where
  "suggest_alternative impact_score product_name =
     (let name = (if strip product_name = [] then ''this product'' else strip product_name)
      in if impact_score = ''Red''
         then ''Try a plant-based version of '' @ name @ '' and choose minimal packaging.''
         else if impact_score = ''Yellow''
         then ''Consider a less-processed or refill/bulk alternative to '' @ name @ ''.''
         else name @ '' is a lower-impact choice. Prioritize local sourcing when possible.'')"



section \<open>disposal.py\<close>

definition SUPPORTED_CITIES :: "string list" where
  "SUPPORTED_CITIES = [''San Francisco'', ''Chicago'']"

definition CITY_DISPOSAL_RULES :: "string \<rightharpoonup> (string \<rightharpoonup> string)" where
  "CITY_DISPOSAL_RULES =
     [''San Francisco'' \<mapsto>
        [''plastic bottle'' \<mapsto> ''Recycle'',
         ''glass bottle'' \<mapsto> ''Recycle'',
         ''greasy cardboard'' \<mapsto> ''Trash''],
      ''Chicago'' \<mapsto>
        [''plastic bottle'' \<mapsto> ''Recycle'',
         ''glass bottle'' \<mapsto> ''Recycle'',
         ''greasy cardboard'' \<mapsto> ''Trash'']]"

definition detect_material :: "string \<Rightarrow> string" where
  "detect_material packaging_text =
     (let text = lower packaging_text
      in if sublist ''plastic bottle'' text then ''plastic bottle''
         else if sublist ''glass bottle'' text then ''glass bottle''
         else if sublist ''greasy cardboard'' text then ''greasy cardboard''
         else ''unknown'')"

text \<open>
  The returned dictionary, with the prefix \<open>d_\<close>. The three icons are single code points
  above 255 (U+267B, U+1F5D1, U+2139), so \<open>d_icon\<close> holds code points as numbers.
  \<open>packaging_text or ""\<close> is \<open>packaging_text\<close> itself for a string.
\<close>

record disposal =
  d_city :: string
  d_material :: string
  d_disposal_type :: string
  d_icon :: "nat list"
  d_detail :: string

definition get_disposal_instruction :: "string \<Rightarrow> string \<Rightarrow> disposal" where
  "get_disposal_instruction city packaging_text =
     (let material = detect_material packaging_text;
          city_rules = (case CITY_DISPOSAL_RULES city of Some rules \<Rightarrow> rules | None \<Rightarrow> Map.empty);
          disposal_type =
            (case city_rules material of Some a \<Rightarrow> a | None \<Rightarrow> ''Check Local Guidelines'');
          icon = (if disposal_type = ''Recycle'' then [0x267B]
                  else if disposal_type = ''Trash'' then [0x1F5D1]
                  else [0x2139]);
          detail = (if material \<noteq> ''unknown''
                    then title material @ '' -> '' @ disposal_type
                    else ''Material unclear. Follow local sorting guidelines.'')
      in \<lparr>d_city = city, d_material = material, d_disposal_type = disposal_type,
          d_icon = icon, d_detail = detail\<rparr>)"

text \<open>
  The material detection as the specification words it: the first of the three material
  names, in the listed order, that occurs in the lower-cased text, else \<open>unknown\<close>.
\<close>

definition detect_material_spec :: "string \<Rightarrow> string" where
  "detect_material_spec packaging_text =
     (case find (\<lambda>m. sublist m (lower packaging_text))
             [''plastic bottle'', ''glass bottle'', ''greasy cardboard''] of
        Some m \<Rightarrow> m
      | None \<Rightarrow> ''unknown'')"


section \<open>database.py\<close>

text \<open>
  The table \<open>scans\<close> is the list of its rows, oldest first (fields with the prefix
  \<open>s_\<close>). The engine gives a new row of an \<open>INTEGER PRIMARY KEY\<close> table the rowid 1
  when the table is empty and the largest rowid plus one otherwise, as long as that
  largest rowid is below \<open>2^63 - 1\<close>. At that bound the engine probes random unused
  rowids and may fail; the model returns the failure there. The column \<open>timestamp\<close>
  defaults to the clock at the time of the write, the parameter \<open>now\<close>.
\<close>

datatype error = HTTPException nat string | SQLiteError

record scan_row =
  s_id :: int
  s_product_name :: string
  s_barcode :: string
  s_city :: string
  s_impact_score :: string
  s_disposal_type :: string
  s_co2_estimate :: real
  s_timestamp :: string

definition max_rowid :: int where
  "max_rowid = 9223372036854775807"

definition next_rowid :: "scan_row list \<Rightarrow> int option" where
  "next_rowid db =
     (if db = [] then Some 1
      else if Max (set (map s_id db)) < max_rowid then Some (Max (set (map s_id db)) + 1)
      else None)"

definition insert_scan ::
  "string \<Rightarrow> scan_row list \<Rightarrow> string \<Rightarrow> string \<Rightarrow> string \<Rightarrow> string \<Rightarrow> string \<Rightarrow> real
     \<Rightarrow> error + (int \<times> scan_row list)" where
  "insert_scan now db product_name barcode city impact_score disposal_type co2_estimate =
     (case next_rowid db of
        None \<Rightarrow> Inl SQLiteError
      | Some lastrowid \<Rightarrow>
          Inr (lastrowid,
               db @ [\<lparr>s_id = lastrowid, s_product_name = product_name, s_barcode = barcode,
                      s_city = city, s_impact_score = impact_score,
                      s_disposal_type = disposal_type, s_co2_estimate = co2_estimate,
                      s_timestamp = now\<rparr>]))"

definition get_scan_by_id :: "scan_row list \<Rightarrow> int \<Rightarrow> scan_row option" where
  "get_scan_by_id db scan_id = find (\<lambda>row. s_id row = scan_id) db"


section \<open>main.py\<close>

text \<open>
  The request to Open Food Facts is outside the program: \<open>fetch\<close> stands for
  \<open>fetch_product_from_open_food_facts\<close> and returns the payload or the HTTP error it
  raises. \<open>ScanRequest\<close> has the prefix \<open>q_\<close> and \<open>ProductResult\<close> the prefix \<open>r_\<close>.
\<close>

record scan_request =
  q_barcode :: string
  q_city :: string

record product_result =
  r_barcode :: string
  r_city :: string
  r_product_name :: string
  r_product_image :: "string option"
  r_impact_score :: string
  r_impact_label :: string
  r_impact_reason :: string
  r_co2_estimate :: real
  r_disposal_type :: string
  r_disposal_detail :: string
  r_disposal_icon :: "nat list"
  r_suggested_alternative :: string
  r_packaging_text :: string

definition build_packaging_text :: "product_data \<Rightarrow> string" where
  "build_packaging_text product =
     (let tags = or_list (p_packaging_tags product);
          packaging_raw = or_list (p_packaging product)
      in strip (join '' '' (tags @ [packaging_raw])))"

definition unsupported_city_detail :: string where
  "unsupported_city_detail =
     ''Unsupported city. Use one of: ('' @ [CHR 0x27] @ ''San Francisco'' @ [CHR 0x27]
       @ '', '' @ [CHR 0x27] @ ''Chicago'' @ [CHR 0x27] @ '')''"

definition build_product_result ::
  "(string \<Rightarrow> error + product_data) \<Rightarrow> string \<Rightarrow> string \<Rightarrow> error + product_result" where
  "build_product_result fetch barcode city =
     (if city \<notin> set SUPPORTED_CITIES then Inl (HTTPException 400 unsupported_city_detail)
      else case fetch barcode of
        Inl e \<Rightarrow> Inl e
      | Inr product \<Rightarrow>
          (let product_name =
                 (if or_list (p_product_name product) \<noteq> [] then or_list (p_product_name product)
                  else if or_list (p_product_name_en product) \<noteq> []
                  then or_list (p_product_name_en product)
                  else ''Unknown Product'');
               product_image = p_image_url product;
               (impact_score, impact_reason) = score_product product;
               co2 = estimate_co2 impact_score;
               packaging_text = build_packaging_text product;
               disposal = get_disposal_instruction city packaging_text;
               alternative = suggest_alternative impact_score product_name
           in Inr \<lparr>r_barcode = barcode, r_city = city, r_product_name = product_name,
                    r_product_image = product_image, r_impact_score = impact_score,
                    r_impact_label =
                      (case IMPACT_TO_LABEL impact_score of
                         Some l \<Rightarrow> l | None \<Rightarrow> ''Medium Impact''),
                    r_impact_reason = impact_reason, r_co2_estimate = co2,
                    r_disposal_type = d_disposal_type disposal,
                    r_disposal_detail = d_detail disposal,
                    r_disposal_icon = d_icon disposal,
                    r_suggested_alternative = alternative,
                    r_packaging_text = packaging_text\<rparr>))"

text \<open>
  \<open>save_scan\<close> returns the row read back and the result; the model returns the new table
  with them.
\<close>

definition save_scan ::
  "(string \<Rightarrow> error + product_data) \<Rightarrow> string \<Rightarrow> scan_row list \<Rightarrow> scan_request
     \<Rightarrow> error + (scan_row list \<times> scan_row option \<times> product_result)" where
  "save_scan fetch now db request =
     (case build_product_result fetch (strip (q_barcode request)) (q_city request) of
        Inl e \<Rightarrow> Inl e
      | Inr result \<Rightarrow>
          (case insert_scan now db (r_product_name result) (r_barcode result) (r_city result)
                  (r_impact_score result) (r_disposal_type result) (r_co2_estimate result) of
             Inl e \<Rightarrow> Inl e
           | Inr (scan_id, db') \<Rightarrow> Inr (db', get_scan_by_id db' scan_id, result)))"


section \<open>Properties of the impact classifier\<close>

lemma or_list_simps [simp]: "or_list None = []" "or_list (Some xs) = xs"
  by (simp_all add: or_list_def)

lemma score_product_absent_fields:
  "score_product (product\<lparr>p_categories_tags := None\<rparr>)
     = score_product (product\<lparr>p_categories_tags := Some []\<rparr>)"
  "score_product (product\<lparr>p_labels_tags := None\<rparr>)
     = score_product (product\<lparr>p_labels_tags := Some []\<rparr>)"
  "score_product (product\<lparr>p_packaging_tags := None\<rparr>)
     = score_product (product\<lparr>p_packaging_tags := Some []\<rparr>)"
  "score_product (product\<lparr>p_product_name := None\<rparr>)
     = score_product (product\<lparr>p_product_name := Some []\<rparr>)"
  "score_product (product\<lparr>p_ingredients_text := None\<rparr>)
     = score_product (product\<lparr>p_ingredients_text := Some []\<rparr>)"
  "score_product (product\<lparr>p_nova_group := None\<rparr>)
     = score_product (product\<lparr>p_nova_group := Some (NovaStr [])\<rparr>)"
  by (simp_all add: score_product_def combined_def category_blob_def label_blob_def
      packaging_blob_def nova_group_text_def)

text \<open>
  C1. Whenever the combined lower-cased text of a product payload contains \<open>beef\<close> or
  \<open>meat\<close>, \<open>score_product\<close> returns the tier \<open>Red\<close> with the meat-heavy rationale,
  whatever the other fields hold: the first rule wins.
\<close>

theorem score_product_meat_is_red:
  assumes "sublist ''beef'' (combined product) \<or> sublist ''meat'' (combined product)"
  shows "score_product product =
           (''Red'', ''Category indicates meat-heavy product (higher footprint).'')"
  using assms by (simp add: score_product_def)

text \<open>
  A payload that also carries a vegan label, paper packaging and NOVA group 4: the meat
  category decides.
\<close>

theorem score_product_meat_is_red_witness:
  "sublist ''meat''
     (combined \<lparr>p_categories_tags = Some [''en:Meats'', ''en:plant-based-foods''],
                 p_labels_tags = Some [''en:vegan''], p_packaging_tags = Some [''en:paper''],
                 p_product_name = Some ''Veggie Burger'', p_ingredients_text = None,
                 p_nova_group = Some (NovaInt 4), p_product_name_en = None,
                 p_image_url = None, p_packaging = None\<rparr>)
   \<and> score_product
         \<lparr>p_categories_tags = Some [''en:Meats'', ''en:plant-based-foods''],
          p_labels_tags = Some [''en:vegan''], p_packaging_tags = Some [''en:paper''],
          p_product_name = Some ''Veggie Burger'', p_ingredients_text = None,
          p_nova_group = Some (NovaInt 4), p_product_name_en = None,
          p_image_url = None, p_packaging = None\<rparr>
       = (''Red'', ''Category indicates meat-heavy product (higher footprint).'')"
  (is "sublist ''meat'' (combined ?p) \<and> _")
proof -
  have m: "sublist ''meat'' (combined ?p)"
    by code_simp
  then have "sublist ''beef'' (combined ?p) \<or> sublist ''meat'' (combined ?p)"
    by simp
  from score_product_meat_is_red [OF this] m show ?thesis
    by simp
qed

text \<open>
  C2. When no keyword rule matches (neither \<open>beef\<close> nor \<open>meat\<close> in the combined text, a
  processing-level code other than \<open>4\<close>, no \<open>packaged-foods\<close> in the category text, none
  of the plant terms in the combined text, none of the packaging terms in the packaging
  text), \<open>score_product\<close> returns \<open>Yellow\<close> with the insufficient-certainty rationale.
  An absent field scores exactly as the empty one does; the function has no failing branch.
\<close>

theorem score_product_default_medium:
  assumes "\<not> sublist ''beef'' (combined product)"
    and "\<not> sublist ''meat'' (combined product)"
    and "nova_group_text product \<noteq> ''4''"
    and "\<not> sublist ''packaged-foods'' (category_blob product)"
    and "\<forall>term \<in> set [''plant'', ''vegan'', ''vegetarian'', ''plant-based''].
           \<not> sublist term (combined product)"
    and "\<forall>term \<in> set [''bulk'', ''recyclable'', ''paper''].
           \<not> sublist term (packaging_blob product)"
  shows "score_product product = (''Yellow'', ''Insufficient certainty; assigned medium impact.'')
    \<and> score_product (product\<lparr>p_categories_tags := None\<rparr>)
        = score_product (product\<lparr>p_categories_tags := Some []\<rparr>)
    \<and> score_product (product\<lparr>p_labels_tags := None\<rparr>)
        = score_product (product\<lparr>p_labels_tags := Some []\<rparr>)
    \<and> score_product (product\<lparr>p_packaging_tags := None\<rparr>)
        = score_product (product\<lparr>p_packaging_tags := Some []\<rparr>)
    \<and> score_product (product\<lparr>p_product_name := None\<rparr>)
        = score_product (product\<lparr>p_product_name := Some []\<rparr>)
    \<and> score_product (product\<lparr>p_ingredients_text := None\<rparr>)
        = score_product (product\<lparr>p_ingredients_text := Some []\<rparr>)
    \<and> score_product (product\<lparr>p_nova_group := None\<rparr>)
        = score_product (product\<lparr>p_nova_group := Some (NovaStr [])\<rparr>)"
proof -
  have "score_product product = (''Yellow'', ''Insufficient certainty; assigned medium impact.'')"
    using assms by (simp add: score_product_def)
  then show ?thesis
    by (simp only: score_product_absent_fields simp_thms)
qed

text \<open>The payload with every field absent meets all six hypotheses and is scored \<open>Yellow\<close>.\<close>

theorem score_product_default_medium_witness:
  "\<not> sublist ''beef'' (combined \<lparr>p_categories_tags = None, p_labels_tags = None,
        p_packaging_tags = None, p_product_name = None, p_ingredients_text = None,
        p_nova_group = None, p_product_name_en = None, p_image_url = None,
        p_packaging = None\<rparr>)
   \<and> nova_group_text \<lparr>p_categories_tags = None, p_labels_tags = None,
        p_packaging_tags = None, p_product_name = None, p_ingredients_text = None,
        p_nova_group = None, p_product_name_en = None, p_image_url = None,
        p_packaging = None\<rparr> \<noteq> ''4''
   \<and> score_product \<lparr>p_categories_tags = None, p_labels_tags = None,
        p_packaging_tags = None, p_product_name = None, p_ingredients_text = None,
        p_nova_group = None, p_product_name_en = None, p_image_url = None,
        p_packaging = None\<rparr>
       = (''Yellow'', ''Insufficient certainty; assigned medium impact.'')"
  (is "\<not> sublist ''beef'' (combined ?p) \<and> _")
proof -
  have c: "combined ?p = ''    ''" and k: "category_blob ?p = []"
    and b: "packaging_blob ?p = []" and n: "nova_group_text ?p = []"
    by code_simp+
  have h1: "\<not> sublist ''beef'' (combined ?p)"
    unfolding c by code_simp
  have h2: "\<not> sublist ''meat'' (combined ?p)"
    unfolding c by code_simp
  have h3: "nova_group_text ?p \<noteq> ''4''"
    unfolding n by simp
  have h4: "\<not> sublist ''packaged-foods'' (category_blob ?p)"
    unfolding k by simp
  have h5: "\<forall>term \<in> set [''plant'', ''vegan'', ''vegetarian'', ''plant-based''].
              \<not> sublist term (combined ?p)"
    unfolding c by code_simp
  have h6: "\<forall>term \<in> set [''bulk'', ''recyclable'', ''paper''].
              \<not> sublist term (packaging_blob ?p)"
    unfolding b by simp
  from score_product_default_medium [OF h1 h2 h3 h4 h5 h6] h1 h3 show ?thesis
    by blast
qed


section \<open>Properties of the estimator\<close>

text \<open>
  C4. \<open>estimate_co2\<close> depends on the tier string alone and returns the constants written
  in the table: 5.0 for \<open>Red\<close>, 2.5 for \<open>Yellow\<close>, 0.8 for \<open>Green\<close>, and the default 2.5
  for every other string.
\<close>

theorem estimate_co2_constants:
  "estimate_co2 ''Red'' = 5.0 \<and> estimate_co2 ''Yellow'' = 2.5 \<and> estimate_co2 ''Green'' = 0.8
   \<and> (impact_score \<notin> {''Red'', ''Yellow'', ''Green''} \<longrightarrow> estimate_co2 impact_score = 2.5)"
  by (simp add: estimate_co2_def IMPACT_TO_CO2_def)

theorem estimate_co2_constants_witness:
  "''Purple'' \<notin> {''Red'', ''Yellow'', ''Green''} \<and> estimate_co2 ''Purple'' = 2.5"
  using estimate_co2_constants [of "''Purple''"] by simp


section \<open>Properties of the disposal resolver\<close>

lemma detect_material_cases:
  "detect_material t \<in> {''plastic bottle'', ''glass bottle'', ''greasy cardboard'', ''unknown''}"
  by (simp add: detect_material_def Let_def)

lemma title_materials:
  "title ''plastic bottle'' = ''Plastic Bottle''"
  "title ''glass bottle'' = ''Glass Bottle''"
  "title ''greasy cardboard'' = ''Greasy Cardboard''"
  "title ''unknown'' = ''Unknown''"
  by code_simp+

lemma supported_city_rules:
  "city \<in> set SUPPORTED_CITIES \<Longrightarrow>
     CITY_DISPOSAL_RULES city =
       Some [''plastic bottle'' \<mapsto> ''Recycle'', ''glass bottle'' \<mapsto> ''Recycle'',
             ''greasy cardboard'' \<mapsto> ''Trash'']"
  by (auto simp add: SUPPORTED_CITIES_def CITY_DISPOSAL_RULES_def)

lemma unsupported_city_rules:
  "city \<notin> set SUPPORTED_CITIES \<Longrightarrow> CITY_DISPOSAL_RULES city = None"
  by (simp add: SUPPORTED_CITIES_def CITY_DISPOSAL_RULES_def)

lemma material_of_decision:
  "d_material (get_disposal_instruction city packaging_text) = detect_material packaging_text"
  by (simp add: get_disposal_instruction_def Let_def)

lemma disposal_type_enum:
  "d_disposal_type (get_disposal_instruction city packaging_text)
     \<in> {''Recycle'', ''Trash'', ''Check Local Guidelines''}"
proof (cases "city \<in> set SUPPORTED_CITIES")
  case True
  then show ?thesis
    using detect_material_cases [of packaging_text]
    by (auto simp add: get_disposal_instruction_def Let_def supported_city_rules)
next
  case False
  then show ?thesis
    by (simp add: get_disposal_instruction_def Let_def unsupported_city_rules)
qed

text \<open>
  C5. \<open>detect_material\<close> returns the first of \<open>plastic bottle\<close>, \<open>glass bottle\<close>,
  \<open>greasy cardboard\<close> (in this order) that occurs in the lower-cased packaging text, else
  \<open>unknown\<close>; this is the material of the decision. In a supported city the action is
  \<open>Recycle\<close> for the two bottles, \<open>Trash\<close> for greasy cardboard and
  \<open>Check Local Guidelines\<close> for an unmatched material. The two examples of the
  specification evaluate as it says.
\<close>

theorem detect_material_first_match:
  "detect_material packaging_text = detect_material_spec packaging_text
   \<and> d_material (get_disposal_instruction city packaging_text) = detect_material packaging_text
   \<and> (city \<in> set SUPPORTED_CITIES \<longrightarrow>
        d_disposal_type (get_disposal_instruction city packaging_text) =
          (if detect_material packaging_text = ''plastic bottle'' then ''Recycle''
           else if detect_material packaging_text = ''glass bottle'' then ''Recycle''
           else if detect_material packaging_text = ''greasy cardboard'' then ''Trash''
           else ''Check Local Guidelines''))
   \<and> d_material (get_disposal_instruction ''San Francisco'' ''plastic bottle wrap'') = ''plastic bottle''
   \<and> d_disposal_type (get_disposal_instruction ''San Francisco'' ''plastic bottle wrap'') = ''Recycle''
   \<and> d_material (get_disposal_instruction ''Chicago'' ''styrofoam tray'') = ''unknown''
   \<and> d_disposal_type (get_disposal_instruction ''Chicago'' ''styrofoam tray'') = ''Check Local Guidelines''"
proof -
  have spec: "detect_material packaging_text = detect_material_spec packaging_text"
    by (simp add: detect_material_def detect_material_spec_def Let_def)
  have mat: "d_material (get_disposal_instruction city packaging_text) = detect_material packaging_text"
    by (rule material_of_decision)
  have act: "city \<in> set SUPPORTED_CITIES \<longrightarrow>
        d_disposal_type (get_disposal_instruction city packaging_text) =
          (if detect_material packaging_text = ''plastic bottle'' then ''Recycle''
           else if detect_material packaging_text = ''glass bottle'' then ''Recycle''
           else if detect_material packaging_text = ''greasy cardboard'' then ''Trash''
           else ''Check Local Guidelines'')"
  proof
    assume "city \<in> set SUPPORTED_CITIES"
    from supported_city_rules [OF this] detect_material_cases [of packaging_text]
    show "d_disposal_type (get_disposal_instruction city packaging_text) =
          (if detect_material packaging_text = ''plastic bottle'' then ''Recycle''
           else if detect_material packaging_text = ''glass bottle'' then ''Recycle''
           else if detect_material packaging_text = ''greasy cardboard'' then ''Trash''
           else ''Check Local Guidelines'')"
      by (auto simp add: get_disposal_instruction_def Let_def)
  qed
  have sf: "detect_material ''plastic bottle wrap'' = ''plastic bottle''"
    by code_simp
  have chi: "detect_material ''styrofoam tray'' = ''unknown''"
    by code_simp
  have m1: "d_material (get_disposal_instruction ''San Francisco'' ''plastic bottle wrap'') = ''plastic bottle''"
    by (simp add: material_of_decision sf)
  have e1: "d_disposal_type (get_disposal_instruction ''San Francisco'' ''plastic bottle wrap'') = ''Recycle''"
    by (simp add: get_disposal_instruction_def Let_def sf CITY_DISPOSAL_RULES_def)
  have m2: "d_material (get_disposal_instruction ''Chicago'' ''styrofoam tray'') = ''unknown''"
    by (simp add: material_of_decision chi)
  have e2: "d_disposal_type (get_disposal_instruction ''Chicago'' ''styrofoam tray'') = ''Check Local Guidelines''"
    by (simp add: get_disposal_instruction_def Let_def chi CITY_DISPOSAL_RULES_def)
  show ?thesis
    by (intro conjI; fact)
qed

text \<open>
  A text that holds two material names in mixed case: the one listed first wins, not the
  one that comes first in the text.
\<close>

theorem detect_material_first_match_witness:
  "''Chicago'' \<in> set SUPPORTED_CITIES
   \<and> detect_material ''Greasy Cardboard around a Glass Bottle'' = ''glass bottle''
   \<and> d_disposal_type (get_disposal_instruction ''Chicago'' ''Greasy Cardboard around a Glass Bottle'')
       = ''Recycle''"
proof -
  have c: "''Chicago'' \<in> set SUPPORTED_CITIES"
    by (simp add: SUPPORTED_CITIES_def)
  have m: "detect_material ''Greasy Cardboard around a Glass Bottle'' = ''glass bottle''"
    by code_simp
  from detect_material_first_match [of "''Greasy Cardboard around a Glass Bottle''" "''Chicago''"] c m
  show ?thesis by simp
qed

text \<open>
  C6, as the specification states it, fails: for San Francisco and \<open>plastic bottle\<close> the
  material is \<open>plastic bottle\<close> and the action \<open>Recycle\<close>, yet the detail is
  \<open>Plastic Bottle -> Recycle\<close>, not \<open>plastic bottle -> Recycle\<close>.
\<close>

theorem detail_differs_from_raw_material:
  "d_material (get_disposal_instruction ''San Francisco'' ''plastic bottle'') = ''plastic bottle''
   \<and> d_disposal_type (get_disposal_instruction ''San Francisco'' ''plastic bottle'') = ''Recycle''
   \<and> d_detail (get_disposal_instruction ''San Francisco'' ''plastic bottle'') = ''Plastic Bottle -> Recycle''
   \<and> d_detail (get_disposal_instruction ''San Francisco'' ''plastic bottle'')
       \<noteq> d_material (get_disposal_instruction ''San Francisco'' ''plastic bottle'') @ '' -> ''
           @ d_disposal_type (get_disposal_instruction ''San Francisco'' ''plastic bottle'')"
proof -
  have m: "detect_material ''plastic bottle'' = ''plastic bottle''"
    by code_simp
  show ?thesis
    by (simp add: get_disposal_instruction_def Let_def m CITY_DISPOSAL_RULES_def title_materials)
qed

text \<open>
  C6, amended. When the detected material is not \<open>unknown\<close>, the detail is the material in
  title case (\<open>Plastic Bottle\<close>, \<open>Glass Bottle\<close>, \<open>Greasy Cardboard\<close>), then \<open> -> \<close>, then
  the action; when it is \<open>unknown\<close>, the detail is the fixed guidance sentence.
\<close>

theorem detail_title_cased:
  "d_detail (get_disposal_instruction city packaging_text) =
     (if d_material (get_disposal_instruction city packaging_text) \<noteq> ''unknown''
      then title (d_material (get_disposal_instruction city packaging_text)) @ '' -> ''
             @ d_disposal_type (get_disposal_instruction city packaging_text)
      else ''Material unclear. Follow local sorting guidelines.'')
   \<and> title (d_material (get_disposal_instruction city packaging_text)) =
       (if d_material (get_disposal_instruction city packaging_text) = ''plastic bottle''
        then ''Plastic Bottle''
        else if d_material (get_disposal_instruction city packaging_text) = ''glass bottle''
        then ''Glass Bottle''
        else if d_material (get_disposal_instruction city packaging_text) = ''greasy cardboard''
        then ''Greasy Cardboard''
        else ''Unknown'')"
proof -
  have "d_detail (get_disposal_instruction city packaging_text) =
     (if detect_material packaging_text \<noteq> ''unknown''
      then title (detect_material packaging_text) @ '' -> ''
             @ d_disposal_type (get_disposal_instruction city packaging_text)
      else ''Material unclear. Follow local sorting guidelines.'')"
    by (simp add: get_disposal_instruction_def Let_def)
  moreover have "title (detect_material packaging_text) =
       (if detect_material packaging_text = ''plastic bottle''
        then ''Plastic Bottle''
        else if detect_material packaging_text = ''glass bottle''
        then ''Glass Bottle''
        else if detect_material packaging_text = ''greasy cardboard''
        then ''Greasy Cardboard''
        else ''Unknown'')"
    using detect_material_cases [of packaging_text]
    by (auto simp add: title_materials)
  ultimately show ?thesis
    by (simp add: material_of_decision)
qed

theorem detail_title_cased_witness:
  "d_material (get_disposal_instruction ''Chicago'' ''GREASY CARDBOARD box'') \<noteq> ''unknown''
   \<and> d_detail (get_disposal_instruction ''Chicago'' ''GREASY CARDBOARD box'')
       = ''Greasy Cardboard -> Trash''
   \<and> d_detail (get_disposal_instruction ''Chicago'' ''styrofoam tray'')
       = ''Material unclear. Follow local sorting guidelines.''"
proof -
  have m: "detect_material ''GREASY CARDBOARD box'' = ''greasy cardboard''"
    and u: "detect_material ''styrofoam tray'' = ''unknown''"
    by code_simp+
  have a: "d_disposal_type (get_disposal_instruction ''Chicago'' ''GREASY CARDBOARD box'') = ''Trash''"
    by (simp add: get_disposal_instruction_def Let_def m CITY_DISPOSAL_RULES_def)
  from detail_title_cased [of "''Chicago''" "''GREASY CARDBOARD box''"]
    detail_title_cased [of "''Chicago''" "''styrofoam tray''"]
  show ?thesis
    by (simp add: material_of_decision m u a)
qed

text \<open>
  C3, as the specification states it, fails: \<open>get_disposal_instruction\<close> has no failing
  branch. For the unsupported city \<open>Nowhere\<close> and \<open>plastic bottle\<close> it returns a normal
  decision, with the action \<open>Check Local Guidelines\<close>.
\<close>

theorem unsupported_city_gets_a_decision:
  "''Nowhere'' \<notin> set SUPPORTED_CITIES
   \<and> get_disposal_instruction ''Nowhere'' ''plastic bottle'' =
       \<lparr>d_city = ''Nowhere'', d_material = ''plastic bottle'',
        d_disposal_type = ''Check Local Guidelines'', d_icon = [0x2139],
        d_detail = ''Plastic Bottle -> Check Local Guidelines''\<rparr>"
proof -
  have m: "detect_material ''plastic bottle'' = ''plastic bottle''"
    by code_simp
  show ?thesis
    by (simp add: get_disposal_instruction_def Let_def m CITY_DISPOSAL_RULES_def title_materials
        SUPPORTED_CITIES_def)
qed

text \<open>
  C3, amended. The validation is in \<open>build_product_result\<close>: for a city outside the
  supported set it fails with the HTTP error 400, whatever the lookup would return, so
  neither the lookup nor the disposal resolution runs, and \<open>save_scan\<close> fails with it
  and stores nothing. \<open>get_disposal_instruction\<close> itself, given such a city, returns a
  decision whose action is \<open>Check Local Guidelines\<close>.
\<close>

theorem unsupported_city_rejected_at_boundary:
  assumes "city \<notin> set SUPPORTED_CITIES"
  shows "build_product_result fetch barcode city = Inl (HTTPException 400 unsupported_city_detail)
   \<and> save_scan fetch now db \<lparr>q_barcode = barcode, q_city = city\<rparr>
       = Inl (HTTPException 400 unsupported_city_detail)
   \<and> d_disposal_type (get_disposal_instruction city packaging_text) = ''Check Local Guidelines''"
  using assms
  by (simp add: build_product_result_def save_scan_def get_disposal_instruction_def Let_def
      unsupported_city_rules)

theorem unsupported_city_rejected_at_boundary_witness:
  "''Nowhere'' \<notin> set SUPPORTED_CITIES
   \<and> build_product_result (\<lambda>b. Inl (HTTPException 404 ''Product not found.'')) ''12345'' ''Nowhere''
       = Inl (HTTPException 400 unsupported_city_detail)
   \<and> d_disposal_type (get_disposal_instruction ''Nowhere'' ''plastic bottle'') = ''Check Local Guidelines''"
proof -
  have c: "''Nowhere'' \<notin> set SUPPORTED_CITIES"
    by (simp add: SUPPORTED_CITIES_def)
  from unsupported_city_rejected_at_boundary [OF c] show ?thesis
    using c by simp
qed


section \<open>Properties of the persistence layer\<close>

lemma find_append_fresh:
  "\<forall>x \<in> set xs. \<not> P x \<Longrightarrow> P y \<Longrightarrow> find P (xs @ [y]) = Some y"
  by (induction xs) simp_all

lemma next_rowid_fresh:
  assumes "next_rowid db = Some k" and "row \<in> set db"
  shows "s_id row < k"
proof -
  from assms have ne: "db \<noteq> []" by auto
  with assms(1) have k: "k = Max (set (map s_id db)) + 1"
    by (simp add: next_rowid_def split: if_splits)
  have "s_id row \<le> Max (set (map s_id db))"
    using assms(2) by (intro Max_ge) auto
  with k show ?thesis by simp
qed

lemma next_rowid_below_bound:
  assumes "\<forall>row \<in> set db. s_id row < max_rowid"
  shows "\<exists>k. next_rowid db = Some k"
proof (cases "db = []")
  case True
  then show ?thesis by (simp add: next_rowid_def)
next
  case False
  then have "Max (set (map s_id db)) \<in> set (map s_id db)"
    by (intro Max_in) auto
  with assms have "Max (set (map s_id db)) < max_rowid" by auto
  with False show ?thesis by (simp add: next_rowid_def)
qed

lemma insert_scan_Inr:
  assumes "insert_scan now db product_name barcode city impact_score disposal_type co2_estimate
             = Inr (scan_id, db')"
  shows "next_rowid db = Some scan_id
     \<and> db' = db @ [\<lparr>s_id = scan_id, s_product_name = product_name, s_barcode = barcode,
                      s_city = city, s_impact_score = impact_score,
                      s_disposal_type = disposal_type, s_co2_estimate = co2_estimate,
                      s_timestamp = now\<rparr>]"
  using assms by (auto simp add: insert_scan_def split: option.splits)

lemma get_after_insert:
  assumes "next_rowid db = Some k" and "s_id row = k"
  shows "get_scan_by_id (db @ [row]) k = Some row"
  unfolding get_scan_by_id_def
proof (rule find_append_fresh)
  show "\<forall>x \<in> set db. \<not> s_id x = k"
    using next_rowid_fresh [OF assms(1)] by fastforce
  show "s_id row = k" by (rule assms(2))
qed

text \<open>
  C8. On a table whose rowids are below the engine's bound, \<open>insert_scan\<close> succeeds, and
  \<open>get_scan_by_id\<close> with the returned id reads back a row whose product name, barcode,
  city, impact score, disposal type and CO2 estimate are the values inserted. The id and
  the timestamp are the two values assigned at the write.
\<close>

theorem insert_scan_roundtrip:
  assumes "\<forall>row \<in> set db. s_id row < max_rowid"
  shows "\<exists>scan_id db' row.
           insert_scan now db product_name barcode city impact_score disposal_type co2_estimate
             = Inr (scan_id, db')
         \<and> get_scan_by_id db' scan_id = Some row
         \<and> s_id row = scan_id
         \<and> s_product_name row = product_name \<and> s_barcode row = barcode \<and> s_city row = city
         \<and> s_impact_score row = impact_score \<and> s_disposal_type row = disposal_type
         \<and> s_co2_estimate row = co2_estimate
         \<and> s_timestamp row = now"
proof -
  from next_rowid_below_bound [OF assms] obtain k where k: "next_rowid db = Some k" ..
  let ?row = "\<lparr>s_id = k, s_product_name = product_name, s_barcode = barcode,
                 s_city = city, s_impact_score = impact_score,
                 s_disposal_type = disposal_type, s_co2_estimate = co2_estimate,
                 s_timestamp = now\<rparr>"
  have ins: "insert_scan now db product_name barcode city impact_score disposal_type co2_estimate
          = Inr (k, db @ [?row])"
    by (simp add: insert_scan_def k)
  have "get_scan_by_id (db @ [?row]) k = Some ?row"
    by (rule get_after_insert [OF k]) simp
  with ins show ?thesis by force
qed

text \<open>A table that already holds the row 7: the new row gets the id 8 and reads back.\<close>

theorem insert_scan_roundtrip_witness:
  "(7 :: int) < max_rowid
   \<and> (\<exists>scan_id db' row.
         insert_scan ''2024-03-02 09:30:00''
           [\<lparr>s_id = 7, s_product_name = ''Oat Drink'', s_barcode = ''7394376616037'',
             s_city = ''Chicago'', s_impact_score = ''Green'', s_disposal_type = ''Recycle'',
             s_co2_estimate = 0.8, s_timestamp = ''2024-03-01 10:00:00''\<rparr>]
           ''Beef Jerky'' ''0123456789012'' ''San Francisco'' ''Red'' ''Check Local Guidelines'' 5.0
           = Inr (scan_id, db')
       \<and> get_scan_by_id db' scan_id = Some row
       \<and> s_id row = scan_id
       \<and> s_product_name row = ''Beef Jerky'' \<and> s_barcode row = ''0123456789012''
       \<and> s_city row = ''San Francisco'' \<and> s_impact_score row = ''Red''
       \<and> s_disposal_type row = ''Check Local Guidelines'' \<and> s_co2_estimate row = 5.0
       \<and> s_timestamp row = ''2024-03-02 09:30:00'')
   \<and> fst (projr (insert_scan ''2024-03-02 09:30:00''
           [\<lparr>s_id = 7, s_product_name = ''Oat Drink'', s_barcode = ''7394376616037'',
             s_city = ''Chicago'', s_impact_score = ''Green'', s_disposal_type = ''Recycle'',
             s_co2_estimate = 0.8, s_timestamp = ''2024-03-01 10:00:00''\<rparr>]
           ''Beef Jerky'' ''0123456789012'' ''San Francisco'' ''Red'' ''Check Local Guidelines'' 5.0))
       = 8"
  (is "?H \<and> ?C \<and> ?E")
proof -
  have b: ?H
    by (simp add: max_rowid_def)
  then have h: "\<forall>row \<in> set [\<lparr>s_id = 7, s_product_name = ''Oat Drink'',
                   s_barcode = ''7394376616037'', s_city = ''Chicago'',
                   s_impact_score = ''Green'', s_disposal_type = ''Recycle'',
                   s_co2_estimate = 0.8, s_timestamp = ''2024-03-01 10:00:00''\<rparr>].
               s_id row < max_rowid"
    by simp
  from insert_scan_roundtrip [OF h] have c: ?C .
  have e: ?E
    by (simp add: insert_scan_def next_rowid_def max_rowid_def)
  from b c e show ?thesis
    by (intro conjI)
qed


section \<open>Properties of the advisor\<close>

lemma strip_Nil_iff: "strip s = [] \<longleftrightarrow> (\<forall>c \<in> set s. isspace c)"
proof
  assume "strip s = []"
  then have all: "\<forall>x \<in> set (dropWhile isspace s). isspace x"
    by (simp add: strip_def dropWhile_eq_Nil_conv)
  have "dropWhile isspace s = []"
  proof (rule ccontr)
    assume ne: "dropWhile isspace s \<noteq> []"
    then have "\<not> isspace (hd (dropWhile isspace s))"
      by (rule hd_dropWhile)
    moreover from ne have "hd (dropWhile isspace s) \<in> set (dropWhile isspace s)"
      by (rule hd_in_set)
    ultimately show False
      using all by blast
  qed
  then show "\<forall>c \<in> set s. isspace c"
    by (simp add: dropWhile_eq_Nil_conv)
next
  assume "\<forall>c \<in> set s. isspace c"
  then have d: "dropWhile isspace s = []"
    by (simp add: dropWhile_eq_Nil_conv)
  show "strip s = []"
    unfolding strip_def d by simp
qed

lemma suggest_alternative_length:
  "length (suggest_alternative impact_score product_name) =
     (if impact_score = ''Red'' then 59 else if impact_score = ''Yellow'' then 57 else 67)
       + length (if strip product_name = [] then ''this product'' else strip product_name)"
  by (simp add: suggest_alternative_def Let_def)

lemma suggest_alternative_Red_iff:
  "suggest_alternative impact_score product_name = suggest_alternative ''Red'' product_name
     \<longleftrightarrow> impact_score = ''Red''"
proof
  assume "suggest_alternative impact_score product_name = suggest_alternative ''Red'' product_name"
  then have "length (suggest_alternative impact_score product_name)
               = length (suggest_alternative ''Red'' product_name)"
    by simp
  then show "impact_score = ''Red''"
    unfolding suggest_alternative_length by (simp split: if_splits)
qed simp

lemma suggest_alternative_Yellow_iff:
  "suggest_alternative impact_score product_name = suggest_alternative ''Yellow'' product_name
     \<longleftrightarrow> impact_score = ''Yellow''"
proof
  assume "suggest_alternative impact_score product_name = suggest_alternative ''Yellow'' product_name"
  then have "length (suggest_alternative impact_score product_name)
               = length (suggest_alternative ''Yellow'' product_name)"
    by simp
  then show "impact_score = ''Yellow''"
    unfolding suggest_alternative_length by (simp split: if_splits)
qed simp

text \<open>
  C10. With \<open>name\<close> the stripped product name, or \<open>this product\<close> when nothing is left of
  it: \<open>suggest_alternative\<close> returns the plant-based message for \<open>Red\<close> and for no other
  tier, the less-processed message for \<open>Yellow\<close> and for no other tier, and the
  lower-impact message for every other string, which is therefore advised as \<open>Green\<close> is.
  \<open>estimate_co2\<close> gives a string outside the three tiers 2.5, the value of \<open>Yellow\<close> and
  not that of \<open>Green\<close>. A name made of whitespace only reads \<open>this product\<close> in all three
  messages.
\<close>

theorem suggest_alternative_branches:
  "suggest_alternative ''Red'' product_name =
       ''Try a plant-based version of ''
         @ (if strip product_name = [] then ''this product'' else strip product_name)
         @ '' and choose minimal packaging.''
   \<and> suggest_alternative ''Yellow'' product_name =
       ''Consider a less-processed or refill/bulk alternative to ''
         @ (if strip product_name = [] then ''this product'' else strip product_name) @ ''.''
   \<and> (impact_score \<noteq> ''Red'' \<and> impact_score \<noteq> ''Yellow'' \<longrightarrow>
        suggest_alternative impact_score product_name =
          (if strip product_name = [] then ''this product'' else strip product_name)
            @ '' is a lower-impact choice. Prioritize local sourcing when possible.''
        \<and> suggest_alternative impact_score product_name = suggest_alternative ''Green'' product_name)
   \<and> (suggest_alternative impact_score product_name = suggest_alternative ''Red'' product_name
        \<longleftrightarrow> impact_score = ''Red'')
   \<and> (suggest_alternative impact_score product_name = suggest_alternative ''Yellow'' product_name
        \<longleftrightarrow> impact_score = ''Yellow'')
   \<and> (impact_score \<notin> {''Red'', ''Yellow'', ''Green''} \<longrightarrow>
        estimate_co2 impact_score = 2.5 \<and> estimate_co2 impact_score = estimate_co2 ''Yellow''
        \<and> estimate_co2 impact_score \<noteq> estimate_co2 ''Green'')
   \<and> ((\<forall>c \<in> set product_name. isspace c) \<longrightarrow>
        suggest_alternative ''Red'' product_name =
          ''Try a plant-based version of this product and choose minimal packaging.''
        \<and> suggest_alternative ''Yellow'' product_name =
          ''Consider a less-processed or refill/bulk alternative to this product.''
        \<and> (impact_score \<noteq> ''Red'' \<and> impact_score \<noteq> ''Yellow'' \<longrightarrow>
             suggest_alternative impact_score product_name =
               ''this product is a lower-impact choice. Prioritize local sourcing when possible.''))"
  (is "?red \<and> ?yellow \<and> ?other \<and> ?only_red \<and> ?only_yellow \<and> ?co2 \<and> ?blank")
proof -
  have red: ?red and yellow: ?yellow and other: ?other
    by (simp_all add: suggest_alternative_def Let_def)
  have only_red: ?only_red
    by (rule suggest_alternative_Red_iff)
  have only_yellow: ?only_yellow
    by (rule suggest_alternative_Yellow_iff)
  have co2: ?co2
    by (simp add: estimate_co2_def IMPACT_TO_CO2_def)
  have blank: ?blank
    by (simp add: suggest_alternative_def Let_def strip_Nil_iff)
  show ?thesis
    by (intro conjI; fact)
qed

text \<open>An unknown tier and a name of two spaces.\<close>

theorem suggest_alternative_branches_witness:
  "''Purple'' \<noteq> ''Red'' \<and> ''Purple'' \<noteq> ''Yellow'' \<and> ''Purple'' \<notin> {''Red'', ''Yellow'', ''Green''}
   \<and> isspace (CHR '' '')
   \<and> suggest_alternative ''Purple'' ''  '' =
       ''this product is a lower-impact choice. Prioritize local sourcing when possible.''
   \<and> suggest_alternative ''Purple'' ''  '' = suggest_alternative ''Green'' ''  ''
   \<and> estimate_co2 ''Purple'' = estimate_co2 ''Yellow''"
proof -
  have c: "isspace (CHR '' '')"
    by code_simp
  then have sp: "\<forall>c \<in> set ''  ''. isspace c"
    by simp
  have t: "''Purple'' \<noteq> ''Red''" "''Purple'' \<noteq> ''Yellow''"
    "''Purple'' \<notin> {''Red'', ''Yellow'', ''Green''}"
    by simp_all
  from suggest_alternative_branches [of "''  ''" "''Purple''"] sp t c show ?thesis
    by blast
qed


section \<open>What is stored\<close>

lemma score_product_tier: "fst (score_product product) \<in> {''Red'', ''Yellow'', ''Green''}"
  by (simp add: score_product_def)

lemma build_product_result_fields:
  assumes "build_product_result fetch barcode city = Inr result"
  shows "\<exists>product. fetch barcode = Inr product
           \<and> r_impact_score result = fst (score_product product)
           \<and> r_disposal_type result =
               d_disposal_type (get_disposal_instruction city (build_packaging_text product))"
  using assms
  by (auto simp add: build_product_result_def Let_def case_prod_beta
      split: if_splits sum.splits)

text \<open>
  C7. The tier that \<open>score_product\<close> returns is one of \<open>Red\<close>, \<open>Yellow\<close>, \<open>Green\<close> for every
  payload, and the action that \<open>get_disposal_instruction\<close> returns is one of \<open>Recycle\<close>,
  \<open>Trash\<close>, \<open>Check Local Guidelines\<close> for every city and packaging text. \<open>save_scan\<close>
  hands these two values to \<open>insert_scan\<close> unchanged: when it succeeds, the table has
  grown by exactly one row, which holds the tier and the action of the result, both in
  these sets; so a table whose rows are all in the sets stays so.
\<close>

theorem stored_values_are_enumerated:
  "fst (score_product product) \<in> {''Red'', ''Yellow'', ''Green''}
   \<and> d_disposal_type (get_disposal_instruction city packaging_text)
        \<in> {''Recycle'', ''Trash'', ''Check Local Guidelines''}
   \<and> (save_scan fetch now db request = Inr (db', scan, result) \<longrightarrow>
        (\<exists>row. db' = db @ [row] \<and> scan = Some row
           \<and> s_impact_score row = r_impact_score result
           \<and> s_disposal_type row = r_disposal_type result
           \<and> s_impact_score row \<in> {''Red'', ''Yellow'', ''Green''}
           \<and> s_disposal_type row \<in> {''Recycle'', ''Trash'', ''Check Local Guidelines''}))
   \<and> (save_scan fetch now db request = Inr (db', scan, result)
        \<and> (\<forall>row \<in> set db. s_impact_score row \<in> {''Red'', ''Yellow'', ''Green''}
              \<and> s_disposal_type row \<in> {''Recycle'', ''Trash'', ''Check Local Guidelines''})
        \<longrightarrow> (\<forall>row \<in> set db'. s_impact_score row \<in> {''Red'', ''Yellow'', ''Green''}
              \<and> s_disposal_type row \<in> {''Recycle'', ''Trash'', ''Check Local Guidelines''}))"
  (is "?tier \<and> ?action \<and> (?saved \<longrightarrow> ?new) \<and> (?saved \<and> ?old \<longrightarrow> ?all)")
proof -
  have tier: ?tier
    by (rule score_product_tier)
  have action: ?action
    by (rule disposal_type_enum)
  have new: ?new if saved: ?saved
  proof -
    from saved obtain res scan_id where
      b: "build_product_result fetch (strip (q_barcode request)) (q_city request) = Inr res"
      and i: "insert_scan now db (r_product_name res) (r_barcode res) (r_city res)
                (r_impact_score res) (r_disposal_type res) (r_co2_estimate res) = Inr (scan_id, db')"
      and s: "scan = get_scan_by_id db' scan_id" and r: "result = res"
      by (auto simp add: save_scan_def split: sum.splits)
    let ?row = "\<lparr>s_id = scan_id, s_product_name = r_product_name res, s_barcode = r_barcode res,
                   s_city = r_city res, s_impact_score = r_impact_score res,
                   s_disposal_type = r_disposal_type res, s_co2_estimate = r_co2_estimate res,
                   s_timestamp = now\<rparr>"
    from insert_scan_Inr [OF i] have k: "next_rowid db = Some scan_id" and d: "db' = db @ [?row]"
      by simp_all
    have g: "scan = Some ?row"
      unfolding s d by (rule get_after_insert [OF k]) simp
    from build_product_result_fields [OF b] obtain product where
      "r_impact_score res = fst (score_product product)"
      "r_disposal_type res =
         d_disposal_type (get_disposal_instruction (q_city request) (build_packaging_text product))"
      by blast
    with score_product_tier [of product]
      disposal_type_enum [of "q_city request" "build_packaging_text product"]
    have "r_impact_score res \<in> {''Red'', ''Yellow'', ''Green''}"
      and "r_disposal_type res \<in> {''Recycle'', ''Trash'', ''Check Local Guidelines''}"
      by simp_all
    with d g r show ?thesis
      by (intro exI [of _ ?row]) simp
  qed
  have inv: ?all if "?saved \<and> ?old"
  proof -
    from that new obtain row where "db' = db @ [row]"
      and "s_impact_score row \<in> {''Red'', ''Yellow'', ''Green''}"
      and "s_disposal_type row \<in> {''Recycle'', ''Trash'', ''Check Local Guidelines''}"
      by blast
    with that show ?thesis
      by auto
  qed
  from tier action new inv show ?thesis
    by blast
qed

text \<open>
  A request for Chicago whose lookup returns a beef product in a plastic bottle, saved
  into the empty table: the row stored carries \<open>Red\<close> and \<open>Recycle\<close>.
\<close>

theorem stored_values_are_enumerated_witness:
  "save_scan
     (\<lambda>barcode. Inr \<lparr>p_categories_tags = Some [''en:dried-meats''], p_labels_tags = None,
        p_packaging_tags = None, p_product_name = Some ''Beef Jerky'',
        p_ingredients_text = None, p_nova_group = Some (NovaInt 4),
        p_product_name_en = None, p_image_url = None,
        p_packaging = Some ''Plastic bottle''\<rparr>)
     ''2024-03-02 09:30:00'' [] \<lparr>q_barcode = '' 0123456789012'', q_city = ''Chicago''\<rparr>
   = Inr ([\<lparr>s_id = 1, s_product_name = ''Beef Jerky'', s_barcode = ''0123456789012'',
             s_city = ''Chicago'', s_impact_score = ''Red'', s_disposal_type = ''Recycle'',
             s_co2_estimate = 5.0, s_timestamp = ''2024-03-02 09:30:00''\<rparr>],
          Some \<lparr>s_id = 1, s_product_name = ''Beef Jerky'', s_barcode = ''0123456789012'',
             s_city = ''Chicago'', s_impact_score = ''Red'', s_disposal_type = ''Recycle'',
             s_co2_estimate = 5.0, s_timestamp = ''2024-03-02 09:30:00''\<rparr>,
          \<lparr>r_barcode = ''0123456789012'', r_city = ''Chicago'', r_product_name = ''Beef Jerky'',
            r_product_image = None, r_impact_score = ''Red'', r_impact_label = ''High Impact'',
            r_impact_reason = ''Category indicates meat-heavy product (higher footprint).'',
            r_co2_estimate = 5.0, r_disposal_type = ''Recycle'',
            r_disposal_detail = ''Plastic Bottle -> Recycle'', r_disposal_icon = [0x267B],
            r_suggested_alternative =
              ''Try a plant-based version of Beef Jerky and choose minimal packaging.'',
            r_packaging_text = ''Plastic bottle''\<rparr>)
   \<and> (\<exists>row.
         [\<lparr>s_id = 1, s_product_name = ''Beef Jerky'', s_barcode = ''0123456789012'',
            s_city = ''Chicago'', s_impact_score = ''Red'', s_disposal_type = ''Recycle'',
            s_co2_estimate = 5.0, s_timestamp = ''2024-03-02 09:30:00''\<rparr>] = [] @ [row]
         \<and> s_impact_score row = ''Red'' \<and> s_disposal_type row = ''Recycle''
         \<and> s_impact_score row \<in> {''Red'', ''Yellow'', ''Green''}
         \<and> s_disposal_type row \<in> {''Recycle'', ''Trash'', ''Check Local Guidelines''})"
  (is "save_scan ?fetch ?now [] ?request = Inr (?db', ?scan, ?result) \<and> ?new")
proof -
  have saved: "save_scan ?fetch ?now [] ?request = Inr (?db', ?scan, ?result)"
    by code_simp
  note new = stored_values_are_enumerated
         [where fetch = ?fetch and now = ?now and db = "[]" and request = ?request
            and db' = ?db' and scan = ?scan and result = ?result,
          THEN conjunct2, THEN conjunct2, THEN conjunct1]
  from mp [OF new saved] have ?new
    by simp
  with saved show ?thesis
    by (rule conjI)
qed

end
